theory Spec2Isabelle
  imports Main "HOL-Library.Sublist"
begin

section \<open>JavaScript strings\<close>

text \<open>
  A JavaScript string is modelled as a \<^typ>\<open>string\<close> holding its UTF-8 bytes. Every
  pattern the program searches for (a space, a dot, a slash, \<open>*\<close>, \<open>error\<close>,
  \<open>.nupkg\<close>, ...) is ASCII, and an ASCII byte never occurs inside the encoding of another
  character, so searching, splitting and replacing agree with the program's. A value that is
  either a string or \<open>undefined\<close> is a \<open>jsstr\<close>.
\<close>

datatype jsstr = Undefined | Str string

text \<open>\<open>`${v}`\<close>: the text of a value inside a template literal.\<close>

fun template :: "jsstr \<Rightarrow> string" where
  "template Undefined = ''undefined''"
| "template (Str s) = s"

text \<open>\<open>!v\<close> is false exactly for a non-empty string.\<close>

fun truthy :: "jsstr \<Rightarrow> bool" where
  "truthy Undefined = False"
| "truthy (Str s) = (s \<noteq> [])"

definition startsWith :: "string \<Rightarrow> string \<Rightarrow> bool" where
  "startsWith s p = prefix p s"

definition endsWith :: "string \<Rightarrow> string \<Rightarrow> bool" where
  "endsWith s p = suffix p s"

text \<open>
  The first occurrence of \<open>pat\<close> in \<open>s\<close>, as the text before it and the text after it
  (\<open>s.indexOf(pat)\<close>, with \<open>None\<close> for \<open>-1\<close>).
\<close>

fun split_at_first :: "string \<Rightarrow> string \<Rightarrow> (string \<times> string) option" where
  "split_at_first pat [] = (if pat = [] then Some ([], []) else None)"
| "split_at_first pat (c # cs) =
     (if prefix pat (c # cs) then Some ([], drop (length pat) (c # cs))
      else map_option (\<lambda>(b, a). (c # b, a)) (split_at_first pat cs))"

definition includes_js :: "string \<Rightarrow> string \<Rightarrow> bool" where
  "includes_js s pat = (split_at_first pat s \<noteq> None)"

text \<open>
  \<open>String.prototype.replace\<close> with a string pattern replaces the first occurrence only, and
  expands the replacement text first (ECMAScript's GetSubstitution, here with no capture
  groups): \<open>$$\<close> is a dollar sign, \<open>$&\<close> the matched text, \<open>$`\<close> the text before the match,
  \<open>$'\<close> the text after it; any other character, also a dollar sign followed by something
  else, stands for itself.
\<close>

fun getSubstitution :: "string \<Rightarrow> string \<Rightarrow> string \<Rightarrow> string \<Rightarrow> string" where
  "getSubstitution m b a [] = []"
| "getSubstitution m b a [c] = [c]"
| "getSubstitution m b a (c # d # r) =
     (if c = CHR ''$'' \<and> d = CHR ''$'' then CHR ''$'' # getSubstitution m b a r
      else if c = CHR ''$'' \<and> d = CHR ''&'' then m @ getSubstitution m b a r
      else if c = CHR ''$'' \<and> d = CHR 0x60 then b @ getSubstitution m b a r
      else if c = CHR ''$'' \<and> d = CHR 0x27 then a @ getSubstitution m b a r
      else c # getSubstitution m b a (d # r))"

definition replace :: "string \<Rightarrow> string \<Rightarrow> string \<Rightarrow> string" where
  "replace s pat repl =
     (case split_at_first pat s of
        None \<Rightarrow> s
      | Some (b, a) \<Rightarrow> b @ getSubstitution pat b a repl @ a)"

text \<open>\<open>s.split(c)\<close> for a one-character separator: never an empty array.\<close>

fun split :: "string \<Rightarrow> char \<Rightarrow> string list" where
  "split [] c = [[]]"
| "split (x # xs) c =
     (if x = c then [] # split xs c
      else (case split xs c of [] \<Rightarrow> [[x]] | y # ys \<Rightarrow> (x # y) # ys))"

text \<open>\<open>xs.join(sep)\<close>.\<close>

fun join :: "string list \<Rightarrow> string \<Rightarrow> string" where
  "join [] sep = []"
| "join [x] sep = x"
| "join (x # y # ys) sep = x @ sep @ join (y # ys) sep"

text \<open>
  \<open>s.toLowerCase()\<close> on the ASCII letters; the bytes of a character outside ASCII are left
  as they are.
\<close>

definition lower_char :: "char \<Rightarrow> char" where
  "lower_char c =
     (case map_of (zip ''ABCDEFGHIJKLMNOPQRSTUVWXYZ'' ''abcdefghijklmnopqrstuvwxyz'') c of
        None \<Rightarrow> c
      | Some d \<Rightarrow> d)"

definition toLowerCase :: "string \<Rightarrow> string" where
  "toLowerCase s = map lower_char s"

text \<open>
  Node's \<open>path.basename\<close> on POSIX: trailing slashes are dropped, and the result is what
  follows the last remaining slash (the empty string when nothing remains).
\<close>

definition basename :: "string \<Rightarrow> string" where
  "basename p =
     rev (takeWhile (\<lambda>c. c \<noteq> CHR ''/'') (dropWhile (\<lambda>c. c = CHR ''/'') (rev p)))"

text \<open>
  Line 157: \<open>path.basename(this.projectFile).split('.').slice(0, -1).join('.')\<close>;
  \<open>slice(0, -1)\<close> drops the last element.
\<close>

definition defaultPackageName :: "string \<Rightarrow> string" where
  "defaultPackageName projectFile = join (butlast (split (basename projectFile) CHR ''.'')) ''.''"

text \<open>
  The text \<open>/error.*/.exec(s)[0]\<close> matches: from the first \<open>error\<close> up to the next line
  terminator (line feed, carriage return, U+2028 or U+2029, the last two as their UTF-8 bytes),
  which the dot does not match. \<open>None\<close> is the \<open>null\<close> of a failed match.
\<close>

fun take_line :: "string \<Rightarrow> string" where
  "take_line [] = []"
| "take_line (c # cs) =
     (if c = CHR 0x0A \<or> c = CHR 0x0D
         \<or> prefix [CHR 0xE2, CHR 0x80, CHR 0xA8] (c # cs)
         \<or> prefix [CHR 0xE2, CHR 0x80, CHR 0xA9] (c # cs)
      then [] else c # take_line cs)"

definition exec_error_line :: "string \<Rightarrow> string option" where
  "exec_error_line s =
     (case split_at_first ''error'' s of
        None \<Rightarrow> None
      | Some (b, a) \<Rightarrow> Some (''error'' @ take_line a))"

text \<open>\<open>/\.s?nupkg$/.test(fn)\<close>.\<close>

definition is_artifact :: "string \<Rightarrow> bool" where
  "is_artifact fn = (endsWith fn ''.nupkg'' \<or> endsWith fn ''.snupkg'')"

text \<open>A status code inside a template literal: its decimal digits.\<close>

fun decimal :: "nat \<Rightarrow> string" where
  "decimal n =
     (if n < 10 then [''0123456789'' ! n] else decimal (n div 10) @ [''0123456789'' ! (n mod 10)])"

declare decimal.simps [simp del]

text \<open>The emoji of the log lines, as UTF-8 bytes: U+1F62D, U+1F622 and U+2728.\<close>

definition sob :: string where
  "sob = [CHR 0xF0, CHR 0x9F, CHR 0x98, CHR 0xAD]"

definition cry :: string where
  "cry = [CHR 0xF0, CHR 0x9F, CHR 0x98, CHR 0xA2]"

definition sparkles :: string where
  "sparkles = [CHR 0xE2, CHR 0x9C, CHR 0xA8]"


section \<open>The action's state\<close>

text \<open>
  The fields of \<open>this\<close>. Lines 10 to 23 read them from the inputs; the inputs that go through
  \<open>JSON.parse\<close> are taken here as the booleans they are meant to be. \<open>versionRegex\<close> holds the
  source text of the pattern. \<open>version\<close> starts as a string and may be assigned a capture
  group, which can be \<open>undefined\<close>. \<open>sourceType\<close> is \<open>None\<close> as long as the field was never
  assigned.
\<close>

datatype source_type = GPR | NuGet

record action =
  projectFile :: string
  packageName :: string
  versionFile :: string
  versionRegex :: string
  version :: jsstr
  tagCommit :: bool
  tagFormat :: string
  nugetKey :: string
  nugetSource :: string
  includeSymbols :: bool
  errorContinue :: bool
  noBuild :: bool
  signingCert :: string
  githubUser :: string
  sourceName :: string
  sourceType :: "source_type option"


section \<open>Effects\<close>

text \<open>
  What a run does to the outside is a list of events, in order. \<open>Call f t\<close> groups the events
  \<open>t\<close> of one call of the method \<open>f\<close>; the existence checker's calls of the publisher are
  recorded this way, so that the checker's own log lines can be told from the publisher's.
\<close>

datatype get_options = BasicAuth string | UserAgent string

datatype event =
    Info string
  | Warning string
  | Error string
  | Debug string
  | Spawn string "string list"
  | Unlink string
  | StdoutWrite string
  | HttpsGet string get_options
  | Call string "event list"

text \<open>
  An exception: \<open>JsError msg\<close> is \<open>throw new Error(msg)\<close>; the others are raised by the
  runtime (\<open>TypeError\<close> on reading a property of \<open>null\<close> or \<open>undefined\<close> or calling what is
  not a function, \<open>SyntaxError\<close> by \<open>JSON.parse\<close>, \<open>FsError\<close> by the \<open>fs\<close> module).
\<close>

datatype exn = JsError string | TypeError | SyntaxError | FsError

text \<open>
  What the request of line 184 ends in: the \<open>error\<close> event with its message, or a response
  with its status code, status message and the chunks of its body.
\<close>

datatype http_outcome = TransportError string | Response nat string "string list"

text \<open>
  What \<open>JSON.parse(body).versions\<close> is: \<open>NotJson\<close> when \<open>JSON.parse\<close> throws, \<open>NoIndexOf\<close>
  when the parsed value or its \<open>versions\<close> has no \<open>indexOf\<close> method (the call raises a
  TypeError), an array or a string otherwise. An array element is a string, or something
  else known by the text \<open>Array.prototype.join\<close> gives it.
\<close>

datatype jelem = JString string | JOther string

datatype versions_field = NotJson | NoIndexOf | VersionsArray "jelem list" | VersionsString string

text \<open>
  The collaborators of the program, over a state \<open>'w\<close> of the outside world (file system,
  toolchain configuration, registry): the subprocess runner with the captured standard
  output, the \<open>fs\<close> calls (\<open>None\<close> where the call throws), \<open>path.resolve\<close>, the regular
  expression engine for the configured pattern (the match array, or \<open>None\<close> for \<open>null\<close>) and
  its \<open>toString\<close>, the HTTP client, the JSON parser and \<open>os.EOL\<close>.
\<close>

record 'w env =
  spawnSync :: "string \<Rightarrow> string list \<Rightarrow> 'w \<Rightarrow> string \<times> 'w"
  existsSync :: "string \<Rightarrow> 'w \<Rightarrow> bool"
  readFileSync :: "string \<Rightarrow> 'w \<Rightarrow> string option"
  readdirSync :: "'w \<Rightarrow> string list option"
  unlinkSync :: "string \<Rightarrow> 'w \<Rightarrow> 'w option"
  resolve :: "string \<Rightarrow> string"
  regexExec :: "string \<Rightarrow> string \<Rightarrow> jsstr list option"
  regexToString :: "string \<Rightarrow> string"
  httpsGet :: "string \<Rightarrow> get_options \<Rightarrow> 'w \<Rightarrow> http_outcome"
  JSON_parse_versions :: "string \<Rightarrow> versions_field"
  EOL :: string

text \<open>
  A computation takes the world and gives the events it emitted, the world it left and
  either the exception it threw or its value.
\<close>

type_synonym ('w, 'a) comp = "'w \<Rightarrow> event list \<times> 'w \<times> (exn + 'a)"

definition return :: "'a \<Rightarrow> ('w, 'a) comp" where
  "return a w = ([], w, Inr a)"

definition throw :: "exn \<Rightarrow> ('w, 'a) comp" where
  "throw e w = ([], w, Inl e)"

definition emit :: "event \<Rightarrow> ('w, unit) comp" where
  "emit ev w = ([ev], w, Inr ())"

definition bind :: "('w, 'a) comp \<Rightarrow> ('a \<Rightarrow> ('w, 'b) comp) \<Rightarrow> ('w, 'b) comp" where
  "bind m f w =
     (case m w of
        (t, w', Inl e) \<Rightarrow> (t, w', Inl e)
      | (t, w', Inr a) \<Rightarrow> (case f a w' of (t', w'', r) \<Rightarrow> (t @ t', w'', r)))"

text \<open>Statements one after the other; an exception ends the sequence.\<close>

fun seq :: "('w, unit) comp list \<Rightarrow> ('w, unit) comp" where
  "seq [] = return ()"
| "seq (m # ms) = bind m (\<lambda>_. seq ms)"

fun forEach :: "'a list \<Rightarrow> ('a \<Rightarrow> ('w, unit) comp) \<Rightarrow> ('w, unit) comp" where
  "forEach [] f = return ()"
| "forEach (x # xs) f = bind (f x) (\<lambda>_. forEach xs f)"

definition call :: "string \<Rightarrow> ('w, 'a) comp \<Rightarrow> ('w, 'a) comp" where
  "call f m w = (case m w of (t, w', r) \<Rightarrow> ([Call f t], w', r))"

definition events :: "event list \<times> 'w \<times> (exn + 'a) \<Rightarrow> event list" where
  "events r = fst r"

definition outcome :: "event list \<times> 'w \<times> (exn + 'a) \<Rightarrow> exn + 'a" where
  "outcome r = snd (snd r)"

definition world :: "event list \<times> 'w \<times> (exn + 'a) \<Rightarrow> 'w" where
  "world r = fst (snd r)"


section \<open>The methods of the class Action\<close>

text \<open>
  The methods keep their names, without the leading underscore; \<open>_tagCommit\<close> is
  \<open>tagCommit_method\<close>, since \<open>tagCommit\<close> is a field.
\<close>

definition quote :: string where
  "quote = [CHR 0x27]"

definition core_info :: "string \<Rightarrow> ('w, unit) comp" where
  "core_info msg = emit (Info msg)"

definition core_warning :: "string \<Rightarrow> ('w, unit) comp" where
  "core_warning msg = emit (Warning msg)"

definition core_error :: "string \<Rightarrow> ('w, unit) comp" where
  "core_error msg = emit (Error msg)"

definition core_debug :: "string \<Rightarrow> ('w, unit) comp" where
  "core_debug msg = emit (Debug msg)"

definition stdout_write :: "string \<Rightarrow> ('w, unit) comp" where
  "stdout_write s = emit (StdoutWrite s)"

subsection \<open>Lines 53 to 70: the log helpers\<close>

definition validateInputs :: "action \<Rightarrow> ('w, unit) comp" where
  "validateInputs st =
     (if truthy (version st) \<and> versionFile st \<noteq> []
      then core_info (''You provided '' @ quote @ ''version'' @ quote
                      @ '', extract-* keys are being ignored'')
      else return ())"

definition printErrorAndExit :: "string \<Rightarrow> ('w, 'a) comp" where
  "printErrorAndExit msg =
     bind (core_error (sob @ '' '' @ msg)) (\<lambda>_. throw (JsError msg))"

definition printError :: "action \<Rightarrow> string \<Rightarrow> ('w, unit) comp" where
  "printError st msg =
     (if errorContinue st then core_warning (cry @ '' '' @ msg)
      else bind (core_error (sob @ '' '' @ msg)) (\<lambda>_. throw (JsError msg)))"

subsection \<open>Lines 72 to 83: running a command\<close>

text \<open>
  \<open>INPUT[0]\<close> is the tool and \<open>INPUT.slice(1)\<close> its arguments. \<open>split\<close> never gives an empty
  array; on one \<open>spawnSync\<close> would be given \<open>undefined\<close> and raise a TypeError.
\<close>

definition executeCommand :: "'w env \<Rightarrow> string \<Rightarrow> ('w, string) comp" where
  "executeCommand env cmd =
     bind (core_info (''executing: ['' @ cmd @ '']'')) (\<lambda>_.
       case split cmd CHR '' '' of
         [] \<Rightarrow> throw TypeError
       | TOOL # ARGS \<Rightarrow>
           (\<lambda>w. case spawnSync env TOOL ARGS w of (out, w') \<Rightarrow> ([Spawn TOOL ARGS], w', Inr out)))"

definition executeInProcess :: "'w env \<Rightarrow> string \<Rightarrow> ('w, unit) comp" where
  "executeInProcess env cmd = bind (executeCommand env cmd) (\<lambda>_. return ())"

subsection \<open>Lines 25 to 50: the constructor, after the inputs are read\<close>

definition addSourceCmd :: "action \<Rightarrow> string" where
  "addSourceCmd st =
     (if startsWith (nugetSource st) ''https://nuget.pkg.github.com''
      then ''dotnet nuget add source '' @ nugetSource st @ ''/index.json --name='' @ sourceName st
           @ '' -u='' @ githubUser st @ '' -p='' @ nugetKey st
           @ '' --store-password-in-clear-text''
      else ''dotnet nuget add source '' @ nugetSource st @ ''/v3/index.json --name=''
           @ sourceName st)"

text \<open>
  The argument holds the fields of lines 10 to 23. A new object has no \<open>sourceType\<close>: the
  field is assigned on lines 35 and 38 only.
\<close>

definition "constructor" :: "action \<Rightarrow> 'w env \<Rightarrow> ('w, action) comp" where
  "constructor st0 env =
     (let st1 = st0\<lparr>sourceName :=
                      (if startsWith (nugetSource st0) ''https://api.nuget.org''
                       then ''nuget.org'' else nugetSource st0),
                    sourceType := None\<rparr>
      in
      bind (executeCommand env ''dotnet nuget list source'') (\<lambda>existingSources.
      bind (if \<not> includes_js existingSources (nugetSource st1)
            then (let st2 = st1\<lparr>sourceType :=
                                   (if startsWith (nugetSource st1) ''https://nuget.pkg.github.com''
                                    then Some GPR else Some NuGet)\<rparr>
                  in bind (executeCommand env (addSourceCmd st2)) (\<lambda>out.
                     bind (core_info out) (\<lambda>_. return st2)))
            else bind (core_info (nugetSource st1 @ '' is already in sources.'')) (\<lambda>_.
                 return st1)) (\<lambda>st.
      bind (executeCommand env ''dotnet nuget list source'') (\<lambda>list1.
      bind (executeCommand env (''dotnet nuget enable source '' @ sourceName st)) (\<lambda>enable.
      bind (core_info list1) (\<lambda>_.
      bind (core_info enable) (\<lambda>_.
      return st)))))))"

subsection \<open>Lines 85 to 100: the tag and the pack arguments\<close>

text \<open>Line 86: \<open>this.tagFormat.replace('*', version)\<close>.\<close>

definition tagName :: "string \<Rightarrow> jsstr \<Rightarrow> string" where
  "tagName tagFormat' v = replace tagFormat' ''*'' (template v)"

definition tagCommit_method :: "action \<Rightarrow> 'w env \<Rightarrow> jsstr \<Rightarrow> ('w, unit) comp" where
  "tagCommit_method st env v =
     (let TAG = tagName (tagFormat st) v in
      seq [core_info (sparkles @ '' creating new tag '' @ TAG),
           executeInProcess env (''git tag '' @ TAG),
           executeInProcess env (''git push origin '' @ TAG),
           stdout_write (''::set-output name=VERSION::'' @ TAG @ EOL env)])"

definition generatePackArgs :: "action \<Rightarrow> string" where
  "generatePackArgs st =
     ''--no-build -c Release -p:PackageVersion='' @ template (version st) @ '' ''
     @ (if includeSymbols st then ''--include-symbols -p:SymbolPackageFormat=snupkg'' else [])
     @ '' --no-build -c Release''"

subsection \<open>Reading the world\<close>

definition gets :: "('w \<Rightarrow> 'a) \<Rightarrow> ('w, 'a) comp" where
  "gets f w = ([], w, Inr (f w))"

definition readdir :: "'w env \<Rightarrow> ('w, string list) comp" where
  "readdir env w =
     (case readdirSync env w of None \<Rightarrow> ([], w, Inl FsError) | Some fns \<Rightarrow> ([], w, Inr fns))"

definition unlink :: "'w env \<Rightarrow> string \<Rightarrow> ('w, unit) comp" where
  "unlink env fn w =
     (case unlinkSync env fn w of
        None \<Rightarrow> ([Unlink fn], w, Inl FsError)
      | Some w' \<Rightarrow> ([Unlink fn], w', Inr ()))"

definition readFile :: "'w env \<Rightarrow> string \<Rightarrow> ('w, string) comp" where
  "readFile env path w =
     (case readFileSync env path w of None \<Rightarrow> ([], w, Inl FsError) | Some c \<Rightarrow> ([], w, Inr c))"

subsection \<open>Lines 101 to 153: the publisher\<close>

definition pushCmd :: "action \<Rightarrow> string \<Rightarrow> string" where
  "pushCmd st nupkg =
     ''dotnet nuget push '' @ nupkg @ '' -s '' @ sourceName st @ '' ''
     @ (if sourceType st \<noteq> Some GPR then ''-k '' @ nugetKey st else [])
     @ ''--skip-duplicate''
     @ (if \<not> includeSymbols st then '' -n'' else [])"

text \<open>Line 125.\<close>

definition signNupkg :: "action \<Rightarrow> 'w env \<Rightarrow> string \<Rightarrow> ('w, unit) comp" where
  "signNupkg st env nupkg =
     (if signingCert st \<noteq> []
      then executeInProcess env
             (''dotnet nuget sign '' @ nupkg @ '' -CertificatePath '' @ signingCert st
              @ '' -Timestamper http://timestamp.digicert.com'')
      else return ())"

text \<open>Lines 124 to 150: the body of the \<open>forEach\<close> over the packages.\<close>

definition pushNupkg :: "action \<Rightarrow> 'w env \<Rightarrow> string \<Rightarrow> ('w, unit) comp" where
  "pushNupkg st env nupkg =
     bind (signNupkg st env nupkg) (\<lambda>_.
     bind (executeCommand env (pushCmd st nupkg)) (\<lambda>pushOutput.
     bind (core_info pushOutput) (\<lambda>_.
     bind (if includes_js pushOutput ''error''
           then (case exec_error_line pushOutput of
                   None \<Rightarrow> throw TypeError
                 | Some m \<Rightarrow> printErrorAndExit m)
           else return ()) (\<lambda>_.
     (let symbolsFilename = replace nupkg ''.nupkg'' ''.snupkg'';
          fullpathsymbolsFilename = resolve env symbolsFilename
      in seq [stdout_write (''::set-output name=PACKAGE_NAME::'' @ nupkg @ EOL env),
              stdout_write (''::set-output name=PACKAGE_PATH::'' @ resolve env nupkg @ EOL env),
              if symbolsFilename \<noteq> []
              then bind (gets (existsSync env fullpathsymbolsFilename)) (\<lambda>ex.
                     if ex
                     then seq [stdout_write (''::set-output name=SYMBOLS_PACKAGE_NAME::''
                                             @ symbolsFilename @ EOL env),
                               stdout_write (''::set-output name=SYMBOLS_PACKAGE_PATH::''
                                             @ fullpathsymbolsFilename @ EOL env)]
                     else core_warning (''supkg ['' @ symbolsFilename
                                        @ ''] is not existed. path:['' @ fullpathsymbolsFilename
                                        @ '']''))
              else return ()])))))"

definition pushPackage :: "action \<Rightarrow> 'w env \<Rightarrow> jsstr \<Rightarrow> string \<Rightarrow> ('w, unit) comp" where
  "pushPackage st env v name =
     bind (core_info (sparkles @ '' found new version ('' @ template v @ '') of '' @ name)) (\<lambda>_.
     if sourceType st = Some NuGet \<and> nugetKey st = []
     then core_warning (cry @ '' NUGET_KEY not given'')
     else seq [core_info (''NuGet Source: '' @ nugetSource st),
               bind (readdir env) (\<lambda>fns. forEach (filter is_artifact fns) (unlink env)),
               if \<not> noBuild st
               then executeInProcess env
                      (''dotnet build -c Release '' @ projectFile st @ '' /p:Version=''
                       @ template (version st))
               else return (),
               executeInProcess env
                 (''dotnet pack '' @ generatePackArgs st @ '' '' @ projectFile st @ '' -o .''),
               bind (readdir env) (\<lambda>fns.
                 let packages = filter (\<lambda>fn. endsWith fn ''nupkg'') fns
                 in seq [core_info (''Generated Package(s): '' @ join packages '', ''),
                         forEach (filter (\<lambda>p. endsWith p ''.nupkg'') packages)
                           (pushNupkg st env)]),
               if tagCommit st then tagCommit_method st env v else return ()])"

subsection \<open>Lines 155 to 207: the existence checker\<close>

text \<open>Lines 156 to 158.\<close>

definition withPackageName :: "action \<Rightarrow> action" where
  "withPackageName st =
     (if packageName st = [] then st\<lparr>packageName := defaultPackageName (projectFile st)\<rparr>
      else st)"

text \<open>Lines 167 to 181: the URL and the options of the request.\<close>

definition versionCheckUrl :: "action \<Rightarrow> string" where
  "versionCheckUrl st =
     (if sourceType st = Some GPR
      then toLowerCase (nugetSource st @ ''/download/'' @ packageName st @ ''/index.json'')
      else toLowerCase (nugetSource st @ ''/v3-flatcontainer/'' @ packageName st
                        @ ''/index.json''))"

definition requestOptions :: "action \<Rightarrow> get_options" where
  "requestOptions st =
     (if sourceType st = Some GPR
      then BasicAuth (githubUser st @ '':'' @ nugetKey st)
      else UserAgent (''Mozilla/5.0 (Windows NT 10.0; Win64; x64) AppleWebKit/537.36 ''
                      @ ''(KHTML, like Gecko) Chrome/100.0.4896.127 Safari/537.36 ''
                      @ ''Edg/100.0.1185.44''))"

text \<open>
  \<open>versions.indexOf(this.version) < 0\<close>. On an array \<open>indexOf\<close> compares with \<open>===\<close>, so
  only a string element can equal a string, and nothing in parsed JSON equals \<open>undefined\<close>;
  on a string it searches for the text of its argument.
\<close>

fun versions_text :: "jelem \<Rightarrow> string" where
  "versions_text (JString s) = s"
| "versions_text (JOther s) = s"

fun indexOf_negative :: "versions_field \<Rightarrow> jsstr \<Rightarrow> bool option" where
  "indexOf_negative (VersionsArray vs) (Str v) = Some (JString v \<notin> set vs)"
| "indexOf_negative (VersionsArray vs) Undefined = Some True"
| "indexOf_negative (VersionsString s) v = Some (\<not> includes_js s (template v))"
| "indexOf_negative NotJson v = None"
| "indexOf_negative NoIndexOf v = None"

fun versions_toString :: "versions_field \<Rightarrow> string" where
  "versions_toString (VersionsArray vs) = join (map versions_text vs) '',''"
| "versions_toString (VersionsString s) = s"
| "versions_toString NotJson = []"
| "versions_toString NoIndexOf = []"

definition foundMessage :: "action \<Rightarrow> string" where
  "foundMessage st =
     ''Found the version: '' @ replace (nugetSource st) ''api.'' [] @ ''/packages/''
     @ packageName st @ ''/'' @ template (version st)"

definition notFoundMessage :: "action \<Rightarrow> versions_field \<Rightarrow> string" where
  "notFoundMessage st vf =
     ''Current version '' @ template (version st) @ '' is not found in NuGet. Versions:''
     @ versions_toString vf"

text \<open>Lines 191 to 195: the handler of the \<open>end\<close> event, on the whole body.\<close>

definition onEnd :: "action \<Rightarrow> 'w env \<Rightarrow> string \<Rightarrow> ('w, unit) comp" where
  "onEnd st env body =
     (case JSON_parse_versions env body of
        NotJson \<Rightarrow> throw SyntaxError
      | NoIndexOf \<Rightarrow> throw TypeError
      | vf \<Rightarrow>
          if indexOf_negative vf (version st) = Some True
          then bind (core_info (notFoundMessage st vf)) (\<lambda>_.
               call ''_pushPackage'' (pushPackage st env (version st) (packageName st)))
          else core_info (foundMessage st))"

text \<open>
  Lines 185 to 206: the callback of the request and the handler of its \<open>error\<close> event. The
  body is the chunks of the \<open>data\<close> events, one after the other.
\<close>

fun onResponse :: "action \<Rightarrow> 'w env \<Rightarrow> string \<Rightarrow> http_outcome \<Rightarrow> ('w, unit) comp" where
  "onResponse st env url (Response statusCode statusMessage chunks) =
     (if statusCode = 200 then onEnd st env (concat chunks)
      else if statusCode = 404
      then bind (core_warning (''Url '' @ quote @ url @ quote @ '' is not available now or ''
                               @ quote @ packageName st @ quote
                               @ '' was never uploaded on NuGet'')) (\<lambda>_.
           call ''_pushPackage'' (pushPackage st env (version st) (packageName st)))
      else printErrorAndExit (''error: '' @ decimal statusCode @ '': '' @ statusMessage))"
| "onResponse st env url (TransportError message) = printErrorAndExit (''error: '' @ message)"

text \<open>
  The request does not block: \<open>run\<close> returns and the callback runs later, with nothing in
  between, so its events follow. An exception of the callback ends the process like one of
  \<open>run\<close>. A request that is never answered is not modelled.
\<close>

definition checkForUpdate :: "action \<Rightarrow> 'w env \<Rightarrow> ('w, unit) comp" where
  "checkForUpdate st0 env =
     (let st = withPackageName st0 in
      seq [core_info (''Package Name: '' @ packageName st),
           if sourceType st = Some GPR
           then core_info ''This is GPR, changing url for versioning...''
           else return (),
           core_info (''Url of checking Version: '' @ versionCheckUrl st),
           emit (HttpsGet (versionCheckUrl st) (requestOptions st)),
           bind (gets (httpsGet env (versionCheckUrl st) (requestOptions st)))
             (onResponse st env (versionCheckUrl st))])"

subsection \<open>Lines 209 to 237: run\<close>

text \<open>\<open>parsedVersion[i]\<close>: \<open>undefined\<close> beyond the array, or where the group took no part.\<close>

definition capture :: "jsstr list \<Rightarrow> nat \<Rightarrow> jsstr" where
  "capture m i = (if i < length m then m ! i else Undefined)"

text \<open>Lines 218 to 228: the body of \<open>if (!this.version)\<close>.\<close>

definition extractVersion :: "action \<Rightarrow> 'w env \<Rightarrow> ('w, action) comp" where
  "extractVersion st env =
     bind (gets (existsSync env (versionFile st))) (\<lambda>ex.
     bind (if versionFile st \<noteq> projectFile st \<and> \<not> ex
           then printErrorAndExit ''version file not found'' else return ()) (\<lambda>_.
     bind (core_info (''Version Filepath: '' @ versionFile st)) (\<lambda>_.
     bind (core_info (''Version Regex: '' @ regexToString env (versionRegex st))) (\<lambda>_.
     bind (readFile env (versionFile st)) (\<lambda>versionFileContent.
     case regexExec env (versionRegex st) versionFileContent of
       None \<Rightarrow> printErrorAndExit ''unable to extract version info!''
     | Some parsedVersion \<Rightarrow> return (st\<lparr>version := capture parsedVersion 1\<rparr>))))))"

text \<open>Lines 210 to 231: \<open>run\<close> up to the call of the existence checker.\<close>

definition run_resolve :: "action \<Rightarrow> 'w env \<Rightarrow> ('w, action) comp" where
  "run_resolve st env =
     bind (validateInputs st) (\<lambda>_.
     bind (gets (existsSync env (projectFile st))) (\<lambda>ex.
     bind (if projectFile st = [] \<or> \<not> ex
           then printErrorAndExit (''Project file '' @ quote @ projectFile st @ quote
                                   @ '' not found'')
           else return ()) (\<lambda>_.
     bind (core_info (''Project Filepath: '' @ projectFile st)) (\<lambda>_.
     bind (core_debug (''Version (pre): '' @ quote @ template (version st) @ quote)) (\<lambda>_.
     bind (if \<not> truthy (version st) then extractVersion st env else return st) (\<lambda>st'.
     bind (core_info (''Version: '' @ template (version st'))) (\<lambda>_.
     return st')))))))"

definition run :: "action \<Rightarrow> 'w env \<Rightarrow> ('w, unit) comp" where
  "run st env = bind (run_resolve st env) (\<lambda>st'. checkForUpdate st' env)"

text \<open>Line 237: \<open>new Action().run()\<close>.\<close>

definition main :: "action \<Rightarrow> 'w env \<Rightarrow> ('w, unit) comp" where
  "main st0 env = bind (constructor st0 env) (\<lambda>st. run st env)"


section \<open>Notions the properties are stated with\<close>

text \<open>The result of a computation with more events in front.\<close>

definition prepend :: "event list \<Rightarrow> event list \<times> 'w \<times> 'r \<Rightarrow> event list \<times> 'w \<times> 'r" where
  "prepend t r = (t @ fst r, snd r)"

text \<open>How often the events of the existence checker show a call of the publisher.\<close>

definition publisher_calls :: "event list \<Rightarrow> nat" where
  "publisher_calls t =
     length (filter (\<lambda>e. case e of Call f sub \<Rightarrow> f = ''_pushPackage'' | _ \<Rightarrow> False) t)"

text \<open>Whether the existence checker logged its message of line 195.\<close>

definition found_logged :: "action \<Rightarrow> event list \<Rightarrow> bool" where
  "found_logged st t = (Info (foundMessage st) \<in> set t)"


text \<open>
  The substitution as the specification words it: the first occurrence of the character is
  replaced by the text \<open>v\<close> as it is, and every other character stays.
\<close>

definition replace_first_literal :: "string \<Rightarrow> char \<Rightarrow> string \<Rightarrow> string" where
  "replace_first_literal s c v =
     (if c \<in> set s then takeWhile (\<lambda>x. x \<noteq> c) s @ v @ tl (dropWhile (\<lambda>x. x \<noteq> c) s) else s)"

text \<open>
  Whether a replacement text holds one of the four patterns \<open>$$\<close>, \<open>$&\<close>, \<open>$`\<close>, \<open>$'\<close> that
  \<open>String.prototype.replace\<close> expands.
\<close>

fun has_dollar_pattern :: "string \<Rightarrow> bool" where
  "has_dollar_pattern (c # d # r) =
     (c = CHR ''$'' \<and> (d = CHR ''$'' \<or> d = CHR ''&'' \<or> d = CHR 0x60 \<or> d = CHR 0x27)
      \<or> has_dollar_pattern (d # r))"
| "has_dollar_pattern [c] = False"
| "has_dollar_pattern [] = False"


section \<open>Example inputs\<close>

text \<open>
  A project \<open>src/MyLib.csproj\<close> at version 3.4.5, a registry that knows the versions 1.0.0
  and 1.2.3, and a working directory given by the list of its file names, to which
  \<open>dotnet pack\<close> adds a package.
\<close>

definition ex_body :: string where
  "ex_body = ''{'' @ [CHR 0x22] @ ''versions'' @ [CHR 0x22] @ '':['' @ [CHR 0x22] @ ''1.0.0''
             @ [CHR 0x22] @ '','' @ [CHR 0x22] @ ''1.2.3'' @ [CHR 0x22] @ '']}''"

definition ex_action :: action where
  "ex_action =
     \<lparr>projectFile = ''src/MyLib.csproj'', packageName = [], versionFile = ''src/MyLib.csproj'',
      versionRegex = ''<Version>(.*)</Version>'', version = Str ''1.2.3'', tagCommit = True,
      tagFormat = ''v*'', nugetKey = ''KEY'', nugetSource = ''https://api.nuget.org'',
      includeSymbols = False, errorContinue = True, noBuild = False, signingCert = [],
      githubUser = ''me'', sourceName = ''nuget.org'', sourceType = Some NuGet\<rparr>"

definition ex_env :: "string list env" where
  "ex_env =
     \<lparr>spawnSync = (\<lambda>tool args w.
        if take 1 args = [''pack''] then ([], w @ [''MyLib.1.2.3.nupkg''])
        else if take 2 args = [''nuget'', ''push''] then (''Your package was pushed.'', w)
        else ([], w)),
      existsSync = (\<lambda>path w. path = ''src/MyLib.csproj''),
      readFileSync = (\<lambda>path w.
        if path = ''src/MyLib.csproj'' then Some ''<Version>3.4.5</Version>'' else None),
      readdirSync = Some,
      unlinkSync = (\<lambda>fn w. Some (removeAll fn w)),
      resolve = (\<lambda>path. ''/work/'' @ path),
      regexExec = (\<lambda>pattern content.
        if pattern = ''<Version>(.*)</Version>'' \<and> content = ''<Version>3.4.5</Version>''
        then Some [Str content, Str ''3.4.5''] else None),
      regexToString = (\<lambda>pattern. ''/'' @ pattern @ ''/m''),
      httpsGet = (\<lambda>url opts w. Response 200 ''OK'' [ex_body]),
      JSON_parse_versions = (\<lambda>body.
        if body = ex_body then VersionsArray [JString ''1.0.0'', JString ''1.2.3''] else NotJson),
      EOL = [CHR 0x0A]\<rparr>"


text \<open>
  The output of a push that the registry refuses, an environment where every command prints
  it, a source on GitHub, and an environment whose source listing already holds that source.
\<close>

definition ex_push_output :: string where
  "ex_push_output = ''Pushing MyLib.1.2.3.nupkg to nuget.org...'' @ [CHR 0x0A]
                    @ ''  Forbidden'' @ [CHR 0x0A]
                    @ ''fatal error: 403 (Forbidden).'' @ [CHR 0x0A]
                    @ ''Usage: dotnet nuget push''"

definition ex_env_push_error :: "string list env" where
  "ex_env_push_error = ex_env\<lparr>spawnSync := (\<lambda>tool args w. (ex_push_output, w))\<rparr>"

definition ex_gpr :: action where
  "ex_gpr = ex_action\<lparr>nugetSource := ''https://nuget.pkg.github.com/me'',
                       sourceName := [], sourceType := None\<rparr>"

definition ex_env_listed :: "string list env" where
  "ex_env_listed =
     ex_env\<lparr>spawnSync := (\<lambda>tool args w.
       if args = [''nuget'', ''list'', ''source'']
       then (''1. github [Enabled] https://nuget.pkg.github.com/me/index.json'', w)
       else ([], w))\<rparr>"


section \<open>Lemmas\<close>

subsection \<open>Strings\<close>

lemma split_at_first_char:
  "split_at_first [c] s =
     (if c \<in> set s then Some (takeWhile (\<lambda>x. x \<noteq> c) s, tl (dropWhile (\<lambda>x. x \<noteq> c) s)) else None)"
  by (induction s) auto

lemma getSubstitution_plain:
  "\<not> has_dollar_pattern r \<Longrightarrow> getSubstitution m b a r = r"
  by (induction m b a r rule: getSubstitution.induct) auto

lemma split_nonempty: "split s c \<noteq> []"
  by (cases s) (auto split: list.splits)

lemma split_no_sep: "c \<notin> set e \<Longrightarrow> split e c = [e]"
  by (induction e) auto

lemma split_last: "c \<notin> set e \<Longrightarrow> split (n @ c # e) c = split n c @ [e]"
  by (induction n) (auto simp: split_no_sep split_nonempty split: list.splits)

lemma join_split: "join (split s c) [c] = s"
proof (induction s)
  case Nil
  show ?case by simp
next
  case (Cons x xs)
  obtain y ys where sp: "split xs c = y # ys"
    using split_nonempty [of xs c] by (cases "split xs c") auto
  show ?case
  proof (cases "x = c")
    case True
    with Cons sp show ?thesis by simp
  next
    case False
    with Cons sp show ?thesis by (cases ys) auto
  qed
qed

lemma basename_segment:
  assumes "seg \<noteq> []" and "CHR ''/'' \<notin> set seg" and "d = [] \<or> last d = CHR ''/''"
  shows "basename (d @ seg) = seg"
proof -
  have hd: "hd (rev seg) \<noteq> CHR ''/''"
    using assms(1,2) by (metis hd_rev last_in_set)
  have dw: "dropWhile (\<lambda>c. c = CHR ''/'') (rev seg @ rev d) = rev seg @ rev d"
    using assms(1) hd by (cases "rev seg") auto
  have all: "\<forall>x\<in>set (rev seg). x \<noteq> CHR ''/''"
    using assms(2) by auto
  have "takeWhile (\<lambda>c. c \<noteq> CHR ''/'') (rev d) = []"
    using assms(3) by (cases d rule: rev_cases) auto
  then have tw: "takeWhile (\<lambda>c. c \<noteq> CHR ''/'') (rev seg @ rev d) = rev seg"
    using takeWhile_append2 [of "rev seg" "\<lambda>c. c \<noteq> CHR ''/''" "rev d"] all by simp
  show ?thesis
    by (simp add: basename_def dw tw)
qed

lemma default_name:
  assumes "CHR ''.'' \<notin> set e" and "CHR ''/'' \<notin> set (n @ ''.'' @ e)" and "d = [] \<or> last d = CHR ''/''"
  shows "defaultPackageName (d @ n @ ''.'' @ e) = n"
proof -
  have "basename (d @ (n @ ''.'' @ e)) = n @ ''.'' @ e"
    using assms(2,3) by (intro basename_segment) auto
  then show ?thesis
    using assms(1) by (simp add: defaultPackageName_def split_last join_split)
qed

lemma nodot: "CHR ''.'' \<notin> set (basename p) \<Longrightarrow> defaultPackageName p = []"
  by (simp add: defaultPackageName_def split_no_sep)


subsection \<open>Computations\<close>

lemma bind_return: "bind (return a) f = f a"
  by (rule ext) (simp add: bind_def return_def split: prod.splits)

lemma bind_throw: "bind (throw e) f = throw e"
  by (rule ext) (simp add: bind_def throw_def)

lemma bind_emit: "bind (emit ev) f w = prepend [ev] (f () w)"
  by (simp add: bind_def emit_def prepend_def split: prod.splits)

lemma bind_gets: "bind (gets g) f w = f (g w) w"
  by (simp add: bind_def gets_def split: prod.splits)

lemma prepend_simps:
  "events (prepend t r) = t @ events r"
  "outcome (prepend t r) = outcome r"
  "world (prepend t r) = world r"
  "prepend t (prepend t' r) = prepend (t @ t') r"
  "prepend t (t', w, x) = (t @ t', w, x)"
  by (simp_all add: prepend_def events_def outcome_def world_def)

lemma result_simps:
  "events (t, w, x) = t" "world (t, w, x) = w" "outcome (t, w, x) = x"
  by (simp_all add: events_def outcome_def world_def)

lemma call_simps:
  "events (call f m w) = [Call f (events (m w))]"
  "outcome (call f m w) = outcome (m w)"
  "world (call f m w) = world (m w)"
  by (simp_all add: call_def events_def outcome_def world_def split: prod.splits)

lemmas log_defs = core_info_def core_warning_def core_error_def core_debug_def stdout_write_def

lemma printErrorAndExit_eq:
  "printErrorAndExit msg w = ([Error (sob @ '' '' @ msg)], w, Inl (JsError msg))"
  by (simp add: printErrorAndExit_def log_defs bind_emit throw_def prepend_def)

lemma bind_printErrorAndExit:
  "bind (printErrorAndExit msg) f w = ([Error (sob @ '' '' @ msg)], w, Inl (JsError msg))"
  by (simp add: bind_def printErrorAndExit_eq)

lemma bind_readFile:
  "bind (readFile env path) f w =
     (case readFileSync env path w of None \<Rightarrow> ([], w, Inl FsError) | Some c \<Rightarrow> f c w)"
  by (simp add: bind_def readFile_def split: option.splits prod.splits)

lemma bind_result:
  "bind m f w =
     (case outcome (m w) of
        Inl e \<Rightarrow> (events (m w), world (m w), Inl e)
      | Inr a \<Rightarrow> prepend (events (m w)) (f a (world (m w))))"
  by (simp add: bind_def events_def outcome_def world_def prepend_def
      split: prod.splits sum.splits)

lemmas comp_simps = bind_return bind_throw bind_emit bind_gets bind_printErrorAndExit
  bind_readFile printErrorAndExit_eq prepend_simps result_simps log_defs

subsection \<open>The existence checker\<close>

lemma found_not_notFound: "foundMessage st \<noteq> notFoundMessage st vf"
  by (simp add: foundMessage_def notFoundMessage_def)

lemma onEnd_present:
  assumes "JSON_parse_versions env body = VersionsArray vs" and "version st = Str v"
    and "JString v \<in> set vs"
  shows "onEnd st env body w = ([Info (foundMessage st)], w, Inr ())"
  using assms by (simp add: onEnd_def log_defs emit_def)

lemma onEnd_events:
  "events (onEnd st env body w) =
     (case JSON_parse_versions env body of
        NotJson \<Rightarrow> []
      | NoIndexOf \<Rightarrow> []
      | vf \<Rightarrow>
          if indexOf_negative vf (version st) = Some True
          then [Info (notFoundMessage st vf),
                Call ''_pushPackage''
                  (events (pushPackage st env (version st) (packageName st) w))]
          else [Info (foundMessage st)])"
  by (simp add: onEnd_def log_defs bind_emit prepend_simps call_simps throw_def emit_def
      result_simps split: versions_field.splits)

declare onResponse.simps [simp del]

lemma onResponse_events:
  "events (onResponse st env url r w) =
     (case r of
        TransportError message \<Rightarrow> [Error (sob @ '' '' @ ''error: '' @ message)]
      | Response statusCode statusMessage chunks \<Rightarrow>
          if statusCode = 200 then events (onEnd st env (concat chunks) w)
          else if statusCode = 404
          then [Warning (''Url '' @ quote @ url @ quote @ '' is not available now or ''
                         @ quote @ packageName st @ quote @ '' was never uploaded on NuGet''),
                Call ''_pushPackage''
                  (events (pushPackage st env (version st) (packageName st) w))]
          else [Error (sob @ '' '' @ ''error: '' @ decimal statusCode @ '': ''
                       @ statusMessage)])"
  by (cases r)
     (simp_all add: onResponse.simps log_defs bind_emit prepend_simps call_simps
        printErrorAndExit_eq result_simps)

subsection \<open>The version resolver\<close>

lemma extractVersion_eq:
  "extractVersion st env w =
     (if versionFile st \<noteq> projectFile st \<and> \<not> existsSync env (versionFile st) w
      then ([Error (sob @ '' '' @ ''version file not found'')], w,
            Inl (JsError ''version file not found''))
      else prepend [Info (''Version Filepath: '' @ versionFile st),
                    Info (''Version Regex: '' @ regexToString env (versionRegex st))]
             (case readFileSync env (versionFile st) w of
                None \<Rightarrow> ([], w, Inl FsError)
              | Some content \<Rightarrow>
                  (case regexExec env (versionRegex st) content of
                     None \<Rightarrow> ([Error (sob @ '' '' @ ''unable to extract version info!'')], w,
                               Inl (JsError ''unable to extract version info!''))
                   | Some m \<Rightarrow> ([], w, Inr (st\<lparr>version := capture m 1\<rparr>)))))"
  by (simp add: extractVersion_def comp_simps return_def split: option.splits)



lemma extractVersion_world: "world (extractVersion st env w) = w"
  by (simp add: extractVersion_eq comp_simps split: option.splits)








subsection \<open>Commands and the publisher\<close>

lemma bind_return_right: "bind m return = m"
  by (rule ext) (simp add: bind_def return_def split: prod.splits sum.splits)

lemma bind_assoc: "bind (bind m f) g = bind m (\<lambda>x. bind (f x) g)"
  by (rule ext) (simp add: bind_def split: prod.splits sum.splits)

lemma executeCommand_eq:
  "executeCommand env cmd w =
     ([Info (''executing: ['' @ cmd @ '']''),
       Spawn (hd (split cmd CHR '' '')) (tl (split cmd CHR '' ''))],
      snd (spawnSync env (hd (split cmd CHR '' '')) (tl (split cmd CHR '' '')) w),
      Inr (fst (spawnSync env (hd (split cmd CHR '' '')) (tl (split cmd CHR '' '')) w)))"
  using split_nonempty [of cmd "CHR '' ''"]
  by (cases "split cmd CHR '' ''")
     (simp_all add: executeCommand_def comp_simps split: prod.splits)

lemma executeInProcess_outcome: "outcome (executeInProcess env cmd w) = Inr ()"
  by (simp add: executeInProcess_def bind_result [of "executeCommand env cmd"]
      executeCommand_eq comp_simps return_def)

lemma signNupkg_outcome: "outcome (signNupkg st env nupkg w) = Inr ()"
  by (simp add: signNupkg_def executeInProcess_outcome return_def result_simps)

lemma bind_executeCommand:
  "bind (executeCommand env cmd) f w =
     prepend [Info (''executing: ['' @ cmd @ '']''),
              Spawn (hd (split cmd CHR '' '')) (tl (split cmd CHR '' ''))]
       (f (fst (spawnSync env (hd (split cmd CHR '' '')) (tl (split cmd CHR '' '')) w))
          (snd (spawnSync env (hd (split cmd CHR '' '')) (tl (split cmd CHR '' '')) w)))"
  by (simp add: bind_result [of "executeCommand env cmd"] executeCommand_eq result_simps)

lemma pushNupkg_eq:
  assumes "executeCommand env (pushCmd st nupkg) (world (signNupkg st env nupkg w))
             = (t, w', Inr pushOutput)"
  shows "pushNupkg st env nupkg w =
           prepend (events (signNupkg st env nupkg w) @ t @ [Info pushOutput])
             (bind (if includes_js pushOutput ''error''
                    then (case exec_error_line pushOutput of
                            None \<Rightarrow> throw TypeError
                          | Some m \<Rightarrow> printErrorAndExit m)
                    else return ())
                (\<lambda>_. let symbolsFilename = replace nupkg ''.nupkg'' ''.snupkg'';
                          fullpathsymbolsFilename = resolve env symbolsFilename
                      in seq [stdout_write (''::set-output name=PACKAGE_NAME::'' @ nupkg @ EOL env),
                              stdout_write (''::set-output name=PACKAGE_PATH::'' @ resolve env nupkg
                                            @ EOL env),
                              if symbolsFilename \<noteq> []
                              then bind (gets (existsSync env fullpathsymbolsFilename)) (\<lambda>ex.
                                     if ex
                                     then seq [stdout_write
                                                 (''::set-output name=SYMBOLS_PACKAGE_NAME::''
                                                  @ symbolsFilename @ EOL env),
                                               stdout_write
                                                 (''::set-output name=SYMBOLS_PACKAGE_PATH::''
                                                  @ fullpathsymbolsFilename @ EOL env)]
                                     else core_warning (''supkg ['' @ symbolsFilename
                                                        @ ''] is not existed. path:[''
                                                        @ fullpathsymbolsFilename @ '']''))
                              else return ()]) w')"
  using assms signNupkg_outcome [of st env nupkg w]
  by (simp add: pushNupkg_def bind_result [of "signNupkg st env nupkg"]
      bind_result [of "executeCommand env (pushCmd st nupkg)"] result_simps prepend_simps
      bind_emit core_info_def)

lemma ex_push_command:
  "executeCommand ex_env_push_error (pushCmd ex_action ''MyLib.1.2.3.nupkg'')
      (world (signNupkg ex_action ex_env_push_error ''MyLib.1.2.3.nupkg'' []))
     = ([Info ''executing: [dotnet nuget push MyLib.1.2.3.nupkg -s nuget.org -k KEY--skip-duplicate -n]'',
         Spawn ''dotnet'' [''nuget'', ''push'', ''MyLib.1.2.3.nupkg'', ''-s'', ''nuget.org'', ''-k'',
                          ''KEY--skip-duplicate'', ''-n'']],
        [], Inr ex_push_output)"
  by (simp add: signNupkg_def pushCmd_def executeCommand_def comp_simps return_def
      ex_action_def ex_env_push_error_def ex_env_def)

lemma ex_push_output_error:
  "split_at_first ''error'' ex_push_output
     = Some (''Pushing MyLib.1.2.3.nupkg to nuget.org...'' @ [CHR 0x0A] @ ''  Forbidden''
             @ [CHR 0x0A] @ ''fatal '',
             '': 403 (Forbidden).'' @ [CHR 0x0A] @ ''Usage: dotnet nuget push'')"
  by (simp add: ex_push_output_def)

lemma checkForUpdate_eq:
  "checkForUpdate st0 env w =
     prepend ([Info (''Package Name: '' @ packageName (withPackageName st0))]
              @ (if sourceType (withPackageName st0) = Some GPR
                 then [Info ''This is GPR, changing url for versioning...''] else [])
              @ [Info (''Url of checking Version: '' @ versionCheckUrl (withPackageName st0)),
                 HttpsGet (versionCheckUrl (withPackageName st0))
                   (requestOptions (withPackageName st0))])
       (onResponse (withPackageName st0) env (versionCheckUrl (withPackageName st0))
          (httpsGet env (versionCheckUrl (withPackageName st0))
             (requestOptions (withPackageName st0)) w) w)"
  by (simp add: checkForUpdate_def Let_def comp_simps bind_assoc bind_return_right)

lemma toLowerCase_append: "toLowerCase (a @ b) = toLowerCase a @ toLowerCase b"
  by (simp add: toLowerCase_def)

subsection \<open>The continue-on-error flag is never read\<close>

lemma pushNupkg_flag: "pushNupkg (st\<lparr>errorContinue := c\<rparr>) env = pushNupkg st env"
  by (rule ext) (simp add: pushNupkg_def signNupkg_def pushCmd_def)










section \<open>The claims\<close>

text \<open>
  C1. For every outcome of the existence check: when the response is 200 and the resolved
  version string is an element of the \<open>versions\<close> array of the body, the publisher is not
  called, the message of line 195 is logged and the callback ends normally; when the version
  is not in the array, and when the status is 404, the publisher is called exactly once and
  that message is not logged; whatever the outcome, the publisher is called at most once and
  never together with that message.
\<close>

theorem existence_check_decides:
  "(version st = Str v \<and> JSON_parse_versions env (concat chunks) = VersionsArray vs
      \<and> JString v \<in> set vs \<longrightarrow>
      publisher_calls (events (onResponse st env url (Response 200 msg chunks) w)) = 0
      \<and> found_logged st (events (onResponse st env url (Response 200 msg chunks) w))
      \<and> outcome (onResponse st env url (Response 200 msg chunks) w) = Inr ())
   \<and> (version st = Str v \<and> JSON_parse_versions env (concat chunks) = VersionsArray vs
      \<and> JString v \<notin> set vs \<longrightarrow>
      publisher_calls (events (onResponse st env url (Response 200 msg chunks) w)) = 1
      \<and> \<not> found_logged st (events (onResponse st env url (Response 200 msg chunks) w)))
   \<and> publisher_calls (events (onResponse st env url (Response 404 msg chunks) w)) = 1
   \<and> \<not> found_logged st (events (onResponse st env url (Response 404 msg chunks) w))
   \<and> publisher_calls (events (onResponse st env url r w)) \<le> 1
   \<and> \<not> (0 < publisher_calls (events (onResponse st env url r w))
          \<and> found_logged st (events (onResponse st env url r w)))"
proof -
  have present: "publisher_calls (events (onResponse st env url (Response 200 msg chunks) w)) = 0
      \<and> found_logged st (events (onResponse st env url (Response 200 msg chunks) w))
      \<and> outcome (onResponse st env url (Response 200 msg chunks) w) = Inr ()"
    if "version st = Str v" "JSON_parse_versions env (concat chunks) = VersionsArray vs"
      "JString v \<in> set vs"
    using that
    by (simp add: onResponse.simps onEnd_present [where v = v and vs = vs] result_simps
        publisher_calls_def found_logged_def)
  have absent: "publisher_calls (events (onResponse st env url (Response 200 msg chunks) w)) = 1
      \<and> \<not> found_logged st (events (onResponse st env url (Response 200 msg chunks) w))"
    if "version st = Str v" "JSON_parse_versions env (concat chunks) = VersionsArray vs"
      "JString v \<notin> set vs"
    using that
    by (simp add: onResponse_events onEnd_events publisher_calls_def found_logged_def
        found_not_notFound)
  have missing: "publisher_calls (events (onResponse st env url (Response 404 msg chunks) w)) = 1
      \<and> \<not> found_logged st (events (onResponse st env url (Response 404 msg chunks) w))"
    by (simp add: onResponse_events publisher_calls_def found_logged_def)
  have any: "publisher_calls (events (onResponse st env url r w)) \<le> 1
      \<and> \<not> (0 < publisher_calls (events (onResponse st env url r w))
             \<and> found_logged st (events (onResponse st env url r w)))"
    by (simp add: onResponse_events onEnd_events publisher_calls_def found_logged_def
        found_not_notFound split: http_outcome.splits versions_field.splits)
  from present absent missing any show ?thesis by blast
qed

theorem existence_check_decides_witness:
  "version ex_action = Str ''1.2.3''
   \<and> JSON_parse_versions ex_env (concat [ex_body]) = VersionsArray [JString ''1.0.0'', JString ''1.2.3'']
   \<and> JString ''1.2.3'' \<in> set [JString ''1.0.0'', JString ''1.2.3'']
   \<and> publisher_calls (events (onResponse ex_action ex_env ''u'' (Response 200 ''OK'' [ex_body]) [])) = 0
   \<and> found_logged ex_action (events (onResponse ex_action ex_env ''u'' (Response 200 ''OK'' [ex_body]) []))
   \<and> version (ex_action\<lparr>version := Str ''2.0.0''\<rparr>) = Str ''2.0.0''
   \<and> JString ''2.0.0'' \<notin> set [JString ''1.0.0'', JString ''1.2.3'']
   \<and> publisher_calls (events (onResponse (ex_action\<lparr>version := Str ''2.0.0''\<rparr>) ex_env ''u''
                                 (Response 200 ''OK'' [ex_body]) [])) = 1
   \<and> \<not> found_logged (ex_action\<lparr>version := Str ''2.0.0''\<rparr>)
         (events (onResponse (ex_action\<lparr>version := Str ''2.0.0''\<rparr>) ex_env ''u''
                    (Response 200 ''OK'' [ex_body]) []))"
proof -
  have p: "JSON_parse_versions ex_env (concat [ex_body])
             = VersionsArray [JString ''1.0.0'', JString ''1.2.3'']"
    by (simp add: ex_env_def)
  have v: "version ex_action = Str ''1.2.3''"
    by (simp add: ex_action_def)
  show ?thesis
    using p v
      existence_check_decides [of ex_action "''1.2.3''" ex_env "[ex_body]"
        "[JString ''1.0.0'', JString ''1.2.3'']" "''u''" "''OK''" "[]"]
      existence_check_decides [of "ex_action\<lparr>version := Str ''2.0.0''\<rparr>" "''2.0.0''" ex_env
        "[ex_body]" "[JString ''1.0.0'', JString ''1.2.3'']" "''u''" "''OK''" "[]"]
    by simp
qed






text \<open>
  C4, as the specification has it: after a push, output that contains \<open>error\<close> raises the first
  matching line, as a warning only when continue-on-error is enabled. It fails with the flag
  enabled on output whose third line is \<open>fatal error: 403 (Forbidden).\<close>: the publisher
  logs an error and throws, and the message is \<open>error: 403 (Forbidden).\<close>, not the line.
\<close>

theorem push_error_counterexample:
  "errorContinue ex_action
   \<and> includes_js ex_push_output ''error''
   \<and> pushNupkg ex_action ex_env_push_error ''MyLib.1.2.3.nupkg'' []
       = ([Info ''executing: [dotnet nuget push MyLib.1.2.3.nupkg -s nuget.org -k KEY--skip-duplicate -n]'',
           Spawn ''dotnet'' [''nuget'', ''push'', ''MyLib.1.2.3.nupkg'', ''-s'', ''nuget.org'', ''-k'',
                            ''KEY--skip-duplicate'', ''-n''],
           Info ex_push_output,
           Error (sob @ '' error: 403 (Forbidden).'')],
          [], Inl (JsError ''error: 403 (Forbidden).''))"
proof -
  have "errorContinue ex_action"
    by (simp add: ex_action_def)
  moreover have "includes_js ex_push_output ''error''"
    by (simp add: includes_js_def ex_push_output_error)
  moreover have "events (signNupkg ex_action ex_env_push_error ''MyLib.1.2.3.nupkg'' []) = []"
    by (simp add: signNupkg_def return_def result_simps ex_action_def)
  ultimately show ?thesis
    by (simp add: pushNupkg_eq [OF ex_push_command] exec_error_line_def ex_push_output_error
        comp_simps)
qed

text \<open>
  C4, amended: after each push command the publisher logs the captured output and searches
  it for \<open>error\<close>. When it is found, the text from its first occurrence to the end of that
  line is logged as an error and thrown, which ends the publisher at once; when it is not
  found, the publisher goes on and this package ends without an exception. Continue-on-error
  has no part in it: pushing a package is the same for both values of the flag.
\<close>

theorem push_error_is_fatal:
  "(executeCommand env (pushCmd st nupkg) (world (signNupkg st env nupkg w))
      = (t, w', Inr pushOutput) \<longrightarrow>
      (split_at_first ''error'' pushOutput = Some (b, a) \<longrightarrow>
         outcome (pushNupkg st env nupkg w) = Inl (JsError (''error'' @ take_line a))
         \<and> events (pushNupkg st env nupkg w)
             = events (signNupkg st env nupkg w) @ t
               @ [Info pushOutput, Error (sob @ '' '' @ ''error'' @ take_line a)])
      \<and> (split_at_first ''error'' pushOutput = None \<longrightarrow>
         outcome (pushNupkg st env nupkg w) = Inr ()))
   \<and> pushNupkg (st\<lparr>errorContinue := c\<rparr>) env nupkg w = pushNupkg st env nupkg w"
proof -
  have e: "outcome (pushNupkg st env nupkg w) = Inl (JsError (''error'' @ take_line a))
         \<and> events (pushNupkg st env nupkg w)
             = events (signNupkg st env nupkg w) @ t
               @ [Info pushOutput, Error (sob @ '' '' @ ''error'' @ take_line a)]"
    if "executeCommand env (pushCmd st nupkg) (world (signNupkg st env nupkg w))
          = (t, w', Inr pushOutput)"
      and "split_at_first ''error'' pushOutput = Some (b, a)"
    using that(2)
    by (simp add: pushNupkg_eq [OF that(1)] includes_js_def exec_error_line_def comp_simps)
  have n: "outcome (pushNupkg st env nupkg w) = Inr ()"
    if "executeCommand env (pushCmd st nupkg) (world (signNupkg st env nupkg w))
          = (t, w', Inr pushOutput)"
      and "split_at_first ''error'' pushOutput = None"
    using that(2)
    by (simp add: pushNupkg_eq [OF that(1)] includes_js_def comp_simps bind_assoc Let_def
        emit_def return_def)
  from e n show ?thesis
    by (simp add: pushNupkg_flag)
qed

theorem push_error_is_fatal_witness:
  "executeCommand ex_env_push_error (pushCmd ex_action ''MyLib.1.2.3.nupkg'')
      (world (signNupkg ex_action ex_env_push_error ''MyLib.1.2.3.nupkg'' []))
     = ([Info ''executing: [dotnet nuget push MyLib.1.2.3.nupkg -s nuget.org -k KEY--skip-duplicate -n]'',
         Spawn ''dotnet'' [''nuget'', ''push'', ''MyLib.1.2.3.nupkg'', ''-s'', ''nuget.org'', ''-k'',
                          ''KEY--skip-duplicate'', ''-n'']],
        [], Inr ex_push_output)
   \<and> split_at_first ''error'' ex_push_output
       = Some (''Pushing MyLib.1.2.3.nupkg to nuget.org...'' @ [CHR 0x0A] @ ''  Forbidden''
               @ [CHR 0x0A] @ ''fatal '',
               '': 403 (Forbidden).'' @ [CHR 0x0A] @ ''Usage: dotnet nuget push'')
   \<and> outcome (pushNupkg (ex_action\<lparr>errorContinue := False\<rparr>) ex_env_push_error
                ''MyLib.1.2.3.nupkg'' [])
       = Inl (JsError ''error: 403 (Forbidden).'')"
proof -
  note x = ex_push_command and y = ex_push_output_error
  have "outcome (pushNupkg ex_action ex_env_push_error ''MyLib.1.2.3.nupkg'' [])
          = Inl (JsError (''error'' @ take_line ('': 403 (Forbidden).'' @ [CHR 0x0A]
                                                  @ ''Usage: dotnet nuget push'')))
        \<and> pushNupkg (ex_action\<lparr>errorContinue := False\<rparr>) ex_env_push_error
            ''MyLib.1.2.3.nupkg'' []
          = pushNupkg ex_action ex_env_push_error ''MyLib.1.2.3.nupkg'' []"
    using x y push_error_is_fatal [where st = ex_action and env = ex_env_push_error
        and nupkg = "''MyLib.1.2.3.nupkg''" and w = "[]" and pushOutput = ex_push_output
        and c = False]
    by blast
  then show ?thesis
    using x y by simp
qed

text \<open>
  C5. The source is meant to be classified in every run. With a GitHub source that the
  toolchain already lists, the constructor leaves \<open>sourceType\<close> unassigned, and the existence
  check then takes the flat-container URL of a NuGet source; with the same source not yet
  listed, it is classified as GPR and the check takes the download URL.
\<close>

theorem classification_skipped_when_listed:
  "includes_js ''1. github [Enabled] https://nuget.pkg.github.com/me/index.json''
     (nugetSource ex_gpr)
   \<and> outcome (constructor ex_gpr ex_env_listed [])
       = Inr (ex_gpr\<lparr>sourceName := ''https://nuget.pkg.github.com/me'', sourceType := None\<rparr>)
   \<and> versionCheckUrl
        (withPackageName (ex_gpr\<lparr>sourceName := ''https://nuget.pkg.github.com/me'',
                                 sourceType := None\<rparr>))
       = ''https://nuget.pkg.github.com/me/v3-flatcontainer/mylib/index.json''
   \<and> outcome (constructor ex_gpr ex_env [])
       = Inr (ex_gpr\<lparr>sourceName := ''https://nuget.pkg.github.com/me'', sourceType := Some GPR\<rparr>)
   \<and> versionCheckUrl
        (withPackageName (ex_gpr\<lparr>sourceName := ''https://nuget.pkg.github.com/me'',
                                 sourceType := Some GPR\<rparr>))
       = ''https://nuget.pkg.github.com/me/download/mylib/index.json''"
  by (simp add: constructor_def bind_assoc bind_executeCommand addSourceCmd_def comp_simps return_def
      includes_js_def startsWith_def versionCheckUrl_def withPackageName_def
      defaultPackageName_def basename_def toLowerCase_def lower_char_def ex_gpr_def
      ex_action_def ex_env_listed_def ex_env_def Let_def)

text \<open>
  C6. The push command is meant to pass \<open>--skip-duplicate\<close> as an argument of its own. For a
  source that is not GPR the command has no space between the key and the option: the
  arguments hold \<open>KEY--skip-duplicate\<close> and no \<open>--skip-duplicate\<close>. For a GPR source the
  key is left out and the option is an argument of its own.
\<close>

theorem skip_duplicate_glued_to_key:
  "sourceType ex_action \<noteq> Some GPR
   \<and> split (pushCmd ex_action ''MyLib.1.2.3.nupkg'') CHR '' ''
       = [''dotnet'', ''nuget'', ''push'', ''MyLib.1.2.3.nupkg'', ''-s'', ''nuget.org'', ''-k'',
          ''KEY--skip-duplicate'', ''-n'']
   \<and> ''--skip-duplicate'' \<notin> set (split (pushCmd ex_action ''MyLib.1.2.3.nupkg'') CHR '' '')
   \<and> split (pushCmd (ex_action\<lparr>sourceType := Some GPR\<rparr>) ''MyLib.1.2.3.nupkg'') CHR '' ''
       = [''dotnet'', ''nuget'', ''push'', ''MyLib.1.2.3.nupkg'', ''-s'', ''nuget.org'',
          ''--skip-duplicate'', ''-n'']"
  by (simp add: pushCmd_def ex_action_def)



text \<open>
  C8, as the specification has it: for every template and every version, the tag is the
  template with its first \<open>*\<close> replaced by the version as it is. It fails on a version with
  a dollar pattern: \<open>v*\<close> and \<open>1.0$$\<close> give \<open>v1.0$\<close>.
\<close>

theorem tagName_dollar_counterexample:
  "tagName ''v*'' (Str ''1.0$$'') = ''v1.0$''
   \<and> tagName ''v*'' (Str ''1.0$$'') \<noteq> replace_first_literal ''v*'' CHR ''*'' ''1.0$$''"
  by (simp add: tagName_def replace_def replace_first_literal_def)

text \<open>
  C8, amended: for every template and every version that holds none of the patterns \<open>$$\<close>,
  \<open>$&\<close>, \<open>$`\<close>, \<open>$'\<close>, the tag is the template with its first \<open>*\<close> replaced by the version
  and every other character unchanged (the template itself when it has no \<open>*\<close>); the
  template \<open>v*\<close> and the version \<open>1.2.3\<close> give \<open>v1.2.3\<close>.
\<close>

theorem tagName_literal:
  "(\<not> has_dollar_pattern v \<longrightarrow> tagName fmt (Str v) = replace_first_literal fmt CHR ''*'' v)
   \<and> tagName ''v*'' (Str ''1.2.3'') = ''v1.2.3''"
  by (simp add: tagName_def replace_def replace_first_literal_def split_at_first_char
      getSubstitution_plain)

theorem tagName_literal_witness:
  "\<not> has_dollar_pattern ''1.2.3-rc$1'' \<and> tagName ''rel-*-*'' (Str ''1.2.3-rc$1'') = ''rel-1.2.3-rc$1-*''"
proof -
  have h: "\<not> has_dollar_pattern ''1.2.3-rc$1''"
    by simp
  show ?thesis
    using h tagName_literal [of "''1.2.3-rc$1''" "''rel-*-*''"]
    by (simp add: replace_first_literal_def)
qed

text \<open>
  C9. When no package name is configured, the package name becomes the final segment of the
  project file path without its final extension, and only that: for a path that ends in the
  segment \<open>n.e\<close>, where \<open>e\<close> has no dot, the name is \<open>n\<close>. \<open>src/MyLib.csproj\<close> gives \<open>MyLib\<close>
  and \<open>My.Lib.csproj\<close> gives \<open>My.Lib\<close>.
\<close>

theorem default_package_name:
  "(packageName st = [] \<and> projectFile st = d @ n @ ''.'' @ e \<and> (d = [] \<or> last d = CHR ''/'')
      \<and> CHR ''/'' \<notin> set (n @ ''.'' @ e) \<and> CHR ''.'' \<notin> set e \<longrightarrow>
      packageName (withPackageName st) = n)
   \<and> defaultPackageName ''src/MyLib.csproj'' = ''MyLib''
   \<and> defaultPackageName ''My.Lib.csproj'' = ''My.Lib''"
proof -
  have a: "defaultPackageName ''src/MyLib.csproj'' = ''MyLib''"
    by (simp add: defaultPackageName_def basename_def)
  have b: "defaultPackageName ''My.Lib.csproj'' = ''My.Lib''"
    by (simp add: defaultPackageName_def basename_def)
  have c: "packageName (withPackageName st) = n"
    if "packageName st = []" "projectFile st = d @ n @ ''.'' @ e" "d = [] \<or> last d = CHR ''/''"
      "CHR ''/'' \<notin> set (n @ ''.'' @ e)" "CHR ''.'' \<notin> set e"
    using that default_name [of e n d] by (simp add: withPackageName_def)
  from a b c show ?thesis by blast
qed

theorem default_package_name_witness:
  "packageName ex_action = [] \<and> projectFile ex_action = ''src/'' @ ''MyLib'' @ ''.'' @ ''csproj''
   \<and> packageName (withPackageName ex_action) = ''MyLib''"
proof -
  have h: "packageName ex_action = []"
      "projectFile ex_action = ''src/'' @ ''MyLib'' @ ''.'' @ ''csproj''"
    by (simp_all add: ex_action_def)
  show ?thesis
    using h default_package_name [of ex_action "''src/''" "''MyLib''" "''csproj''"]
    by simp
qed

text \<open>
  C10. When no package name is configured and the base name of the project file has no dot,
  the package name becomes the empty string, and the existence checker goes on with it: it
  logs the empty name, builds the URL with an empty segment between two slashes and sends
  the request.
\<close>

theorem empty_default_package_name:
  "packageName st = [] \<and> CHR ''.'' \<notin> set (basename (projectFile st)) \<longrightarrow>
     packageName (withPackageName st) = []
     \<and> versionCheckUrl (withPackageName st)
         = toLowerCase (nugetSource st)
           @ (if sourceType st = Some GPR then ''/download//index.json''
              else ''/v3-flatcontainer//index.json'')
     \<and> take 2 (events (checkForUpdate st env w))
         = [Info ''Package Name: '',
            if sourceType st = Some GPR then Info ''This is GPR, changing url for versioning...''
            else Info (''Url of checking Version: '' @ versionCheckUrl (withPackageName st))]
     \<and> HttpsGet (versionCheckUrl (withPackageName st)) (requestOptions (withPackageName st))
         \<in> set (events (checkForUpdate st env w))"
proof
  assume h: "packageName st = [] \<and> CHR ''.'' \<notin> set (basename (projectFile st))"
  then have n: "packageName (withPackageName st) = []"
    by (simp add: withPackageName_def nodot)
  have t: "sourceType (withPackageName st) = sourceType st"
    "nugetSource (withPackageName st) = nugetSource st"
    by (simp_all add: withPackageName_def)
  have u: "versionCheckUrl (withPackageName st)
         = toLowerCase (nugetSource st)
           @ (if sourceType st = Some GPR then ''/download//index.json''
              else ''/v3-flatcontainer//index.json'')"
    by (simp add: versionCheckUrl_def n t toLowerCase_append)
       (simp add: toLowerCase_def lower_char_def)
  have e: "take 2 (events (checkForUpdate st env w))
         = [Info ''Package Name: '',
            if sourceType st = Some GPR then Info ''This is GPR, changing url for versioning...''
            else Info (''Url of checking Version: '' @ versionCheckUrl (withPackageName st))]"
    by (simp add: checkForUpdate_eq prepend_simps n t)
  have g: "HttpsGet (versionCheckUrl (withPackageName st)) (requestOptions (withPackageName st))
         \<in> set (events (checkForUpdate st env w))"
    by (simp add: checkForUpdate_eq prepend_simps)
  from n u e g show "packageName (withPackageName st) = []
     \<and> versionCheckUrl (withPackageName st)
         = toLowerCase (nugetSource st)
           @ (if sourceType st = Some GPR then ''/download//index.json''
              else ''/v3-flatcontainer//index.json'')
     \<and> take 2 (events (checkForUpdate st env w))
         = [Info ''Package Name: '',
            if sourceType st = Some GPR then Info ''This is GPR, changing url for versioning...''
            else Info (''Url of checking Version: '' @ versionCheckUrl (withPackageName st))]
     \<and> HttpsGet (versionCheckUrl (withPackageName st)) (requestOptions (withPackageName st))
         \<in> set (events (checkForUpdate st env w))"
    by blast
qed

theorem empty_default_package_name_witness:
  "packageName (ex_action\<lparr>projectFile := ''src/Makefile''\<rparr>) = []
   \<and> CHR ''.'' \<notin> set (basename (projectFile (ex_action\<lparr>projectFile := ''src/Makefile''\<rparr>)))
   \<and> packageName (withPackageName (ex_action\<lparr>projectFile := ''src/Makefile''\<rparr>)) = []
   \<and> versionCheckUrl (withPackageName (ex_action\<lparr>projectFile := ''src/Makefile''\<rparr>))
       = ''https://api.nuget.org/v3-flatcontainer//index.json''"
proof -
  let ?a = "ex_action\<lparr>projectFile := ''src/Makefile''\<rparr>"
  have h: "packageName ?a = [] \<and> CHR ''.'' \<notin> set (basename (projectFile ?a))"
    by (simp add: ex_action_def basename_def)
  have s: "nugetSource ?a = ''https://api.nuget.org''" "sourceType ?a = Some NuGet"
    by (simp_all add: ex_action_def)
  have "packageName (withPackageName ?a) = []
        \<and> versionCheckUrl (withPackageName ?a)
            = toLowerCase (nugetSource ?a)
              @ (if sourceType ?a = Some GPR then ''/download//index.json''
                 else ''/v3-flatcontainer//index.json'')"
    using h empty_default_package_name [where st = ?a and env = ex_env and w = "[]"] by blast
  then show ?thesis
    using h by (simp add: s toLowerCase_def lower_char_def)
qed

end
